theory Spec2Isabelle
  imports Complex_Main "HOL-Library.Sublist"
begin

section \<open>Python values as decoded by \<open>json.loads\<close>\<close>

text \<open>
  The program works on the value that \<open>json.loads\<close> returns: \<open>None\<close>, booleans,
  integers (unbounded), floats (IEEE doubles), strings, lists and dictionaries with string
  keys.  A finite double is kept as sign, mantissa and binary exponent, its value being
  \<open>\<plusminus> m * 2 ^ e\<close>; \<open>json.loads\<close> also accepts \<open>Infinity\<close>, \<open>-Infinity\<close> and
  \<open>NaN\<close>.  A dictionary is an association list in insertion order, read with
  \<open>map_of\<close>.
\<close>

datatype pyfloat = Finite bool nat int | Inf bool | NaN

datatype pynum = PInt int | PFloat pyfloat

datatype json =
    JNull
  | JBool bool
  | JNum pynum
  | JStr string
  | JList "json list"
  | JObj "(string \<times> json) list"

text \<open>
  The exceptions the program can raise.  \<open>SystemExit n\<close> is \<open>sys.exit(n)\<close>.
  \<open>Unmodelled\<close> marks the two conversions of a leaf value that this development does
  not compute: \<open>str\<close> of a list or dictionary, and \<open>int\<close> of a repeated string.
\<close>

datatype pyerr =
    KeyError string
  | TypeError
  | AttributeError
  | ValueError
  | OverflowError
  | SystemExit int
  | Unmodelled

definition pybind :: "pyerr + 'a \<Rightarrow> ('a \<Rightarrow> pyerr + 'b) \<Rightarrow> pyerr + 'b" where
  "pybind r f = (case r of Inl e \<Rightarrow> Inl e | Inr x \<Rightarrow> f x)"

subsection \<open>Truth value, subscription, \<open>.get\<close>, \<open>in\<close>, iteration\<close>

fun truthy :: "json \<Rightarrow> bool" where
  "truthy JNull = False"
| "truthy (JBool b) = b"
| "truthy (JNum (PInt i)) = (i \<noteq> 0)"
| "truthy (JNum (PFloat (Finite s m e))) = (m \<noteq> 0)"
| "truthy (JNum (PFloat (Inf s))) = True"
| "truthy (JNum (PFloat NaN)) = True"
| "truthy (JStr s) = (s \<noteq> [])"
| "truthy (JList xs) = (xs \<noteq> [])"
| "truthy (JObj kvs) = (kvs \<noteq> [])"

text \<open>\<open>v[k]\<close> for a string key \<open>k\<close>: only a dictionary can be subscripted by a string.\<close>

fun py_getitem :: "json \<Rightarrow> string \<Rightarrow> pyerr + json" where
  "py_getitem (JObj kvs) k = (case map_of kvs k of None \<Rightarrow> Inl (KeyError k) | Some v \<Rightarrow> Inr v)"
| "py_getitem v k = Inl TypeError"

text \<open>\<open>v.get(k)\<close>: only a dictionary has the method.\<close>

fun py_get :: "json \<Rightarrow> string \<Rightarrow> pyerr + json" where
  "py_get (JObj kvs) k = (case map_of kvs k of None \<Rightarrow> Inr JNull | Some v \<Rightarrow> Inr v)"
| "py_get v k = Inl AttributeError"

fun starts_with :: "string \<Rightarrow> string \<Rightarrow> bool" where
  "starts_with s [] = True"
| "starts_with [] (c # cs) = False"
| "starts_with (d # ds) (c # cs) = (d = c \<and> starts_with ds cs)"

fun substring :: "string \<Rightarrow> string \<Rightarrow> bool" where
  "substring k [] = (k = [])"
| "substring k (c # cs) = (starts_with (c # cs) k \<or> substring k cs)"

text \<open>
  \<open>k in v\<close> for a string \<open>k\<close>: key membership in a dictionary, element membership in a
  list, substring test in a string; anything else is not iterable.
\<close>

fun py_contains :: "string \<Rightarrow> json \<Rightarrow> pyerr + bool" where
  "py_contains k (JObj kvs) = Inr (map_of kvs k \<noteq> None)"
| "py_contains k (JList xs) = Inr (JStr k \<in> set xs)"
| "py_contains k (JStr s) = Inr (substring k s)"
| "py_contains k v = Inl TypeError"

text \<open>
  \<open>for x in v\<close>: the elements of a list, the keys of a dictionary, the characters of a
  string.
\<close>

fun py_iter :: "json \<Rightarrow> pyerr + json list" where
  "py_iter (JList xs) = Inr xs"
| "py_iter (JObj kvs) = Inr (map (\<lambda>kv. JStr (fst kv)) kvs)"
| "py_iter (JStr s) = Inr (map (\<lambda>c. JStr [c]) s)"
| "py_iter v = Inl TypeError"

subsection \<open>\<open>str\<close> of a number\<close>

definition digit_char :: "nat \<Rightarrow> char" where
  "digit_char d = ''0123456789'' ! (d mod 10)"

fun str_nat :: "nat \<Rightarrow> string" where
  "str_nat n = (if n < 10 then [digit_char n] else str_nat (n div 10) @ [digit_char (n mod 10)])"

text \<open>
  An integer is printed in full: the interpreter's configurable limit on the number of
  digits of an integer string is left out.
\<close>

definition str_int :: "int \<Rightarrow> string" where
  "str_int i = (if i < 0 then ''-'' @ str_nat (nat (- i)) else str_nat (nat i))"

text \<open>
  \<open>str\<close> of a float is its \<open>repr\<close>: the shortest decimal digit string that reads back
  as the same double (the nearest such string, the even one on a tie), printed in fixed
  notation when the decimal point position lies in \<open>-3 .. 16\<close> and in exponent notation
  otherwise.
\<close>

definition pow2 :: "int \<Rightarrow> rat" where
  "pow2 e = (if 0 \<le> e then 2 ^ nat e else 1 / 2 ^ nat (- e))"

definition pow10 :: "int \<Rightarrow> rat" where
  "pow10 k = (if 0 \<le> k then 10 ^ nat k else 1 / 10 ^ nat (- k))"

definition magnitude :: "nat \<Rightarrow> int \<Rightarrow> rat" where
  "magnitude m e = of_nat m * pow2 e"

fun ilog2 :: "nat \<Rightarrow> nat" where
  "ilog2 m = (if m < 2 then 0 else Suc (ilog2 (m div 2)))"

fun ndigits :: "nat \<Rightarrow> nat" where
  "ndigits n = (if n < 10 then 1 else Suc (ndigits (n div 10)))"

text \<open>The position \<open>k\<close> of the decimal point of a positive \<open>x\<close>: \<open>10 ^ (k - 1) \<le> x < 10 ^ k\<close>.\<close>

definition decpt_of :: "rat \<Rightarrow> int" where
  "decpt_of x = (if 1 \<le> x then int (ndigits (nat \<lfloor>x\<rfloor>)) else 1 - int (ndigits (nat \<lfloor>1 / x\<rfloor>)))"

text \<open>
  The reals that round to the double \<open>m * 2 ^ e\<close>: from half way to the double below to
  half way to the double above, the end points included when the 53-bit mantissa is even.
\<close>

definition rounding_interval :: "nat \<Rightarrow> int \<Rightarrow> rat \<times> rat \<times> bool" where
  "rounding_interval m e =
     (let x = magnitude m e;
          q = max (e + int (ilog2 m) - 52) (- 1074);
          ulp = pow2 q;
          M = x / ulp;
          lowgap = (if M = 2 ^ 52 \<and> - 1074 < q then ulp / 4 else ulp / 2)
      in (x - lowgap, x + ulp / 2, \<lfloor>M\<rfloor> mod 2 = 0))"

definition inside :: "rat \<Rightarrow> rat \<times> rat \<times> bool \<Rightarrow> bool" where
  "inside v iv = (case iv of (lo, hi, incl) \<Rightarrow> if incl then lo \<le> v \<and> v \<le> hi else lo < v \<and> v < hi)"

definition nearest_digits :: "rat \<Rightarrow> rat \<Rightarrow> int \<Rightarrow> int" where
  "nearest_digits x s d =
     (if x - of_int d * s < of_int (d + 1) * s - x
         \<or> (x - of_int d * s = of_int (d + 1) * s - x \<and> d mod 2 = 0)
      then d else d + 1)"

text \<open>
  \<open>shortest_from j n\<close> tries \<open>n\<close>, \<open>n + 1\<close>, ... significant digits, \<open>j\<close> more lengths at
  most, and returns the digits as an integer \<open>D\<close> with a decimal exponent \<open>t\<close>: the string
  denotes \<open>D * 10 ^ t\<close>.  Seventeen digits always identify a double.
\<close>

fun shortest_from :: "nat \<Rightarrow> nat \<Rightarrow> rat \<Rightarrow> rat \<times> rat \<times> bool \<Rightarrow> int \<Rightarrow> int \<times> int" where
  "shortest_from 0 n x iv k =
     (let s = pow10 (k - int n); d = \<lfloor>x / s\<rfloor> in (nearest_digits x s d, k - int n))"
| "shortest_from (Suc j) n x iv k =
     (let s = pow10 (k - int n); d = \<lfloor>x / s\<rfloor>;
          ina = inside (of_int d * s) iv; inb = inside (of_int (d + 1) * s) iv
      in if ina \<and> inb then (nearest_digits x s d, k - int n)
         else if ina then (d, k - int n)
         else if inb then (d + 1, k - int n)
         else shortest_from j (Suc n) x iv k)"

definition shortest_digits :: "nat \<Rightarrow> int \<Rightarrow> int \<times> int" where
  "shortest_digits m e =
     (let x = magnitude m e in shortest_from 16 1 x (rounding_interval m e) (decpt_of x))"

fun strip_zeros :: "string \<Rightarrow> string" where
  "strip_zeros [] = []"
| "strip_zeros (c # cs) =
     (let r = strip_zeros cs in if r = [] \<and> c = CHR ''0'' then [] else c # r)"

definition format_digits :: "string \<Rightarrow> int \<Rightarrow> string" where
  "format_digits ds decpt =
     (let n = int (length ds) in
      if decpt \<le> - 4 \<or> 16 < decpt then
        take 1 ds @ (if 1 < n then ''.'' @ drop 1 ds else [])
          @ ''e'' @ (if decpt - 1 < 0 then ''-'' else ''+'')
          @ (if \<bar>decpt - 1\<bar> < 10 then ''0'' else []) @ str_int \<bar>decpt - 1\<bar>
      else if decpt \<le> 0 then ''0.'' @ replicate (nat (- decpt)) CHR ''0'' @ ds
      else if n \<le> decpt then ds @ replicate (nat (decpt - n)) CHR ''0'' @ ''.0''
      else take (nat decpt) ds @ ''.'' @ drop (nat decpt) ds)"

fun str_float :: "pyfloat \<Rightarrow> string" where
  "str_float NaN = ''nan''"
| "str_float (Inf s) = (if s then ''-inf'' else ''inf'')"
| "str_float (Finite s m e) =
     (if s then ''-'' else []) @
     (if m = 0 then ''0.0''
      else (case shortest_digits m e of (D, t) \<Rightarrow>
              let full = str_int D
              in format_digits (case strip_zeros full of [] \<Rightarrow> ''0'' | c # cs \<Rightarrow> c # cs)
                   (int (length full) + t)))"

fun str_num :: "pynum \<Rightarrow> string" where
  "str_num (PInt i) = str_int i"
| "str_num (PFloat f) = str_float f"

text \<open>\<open>str(v)\<close> of a leaf value.\<close>

fun py_str :: "json \<Rightarrow> pyerr + string" where
  "py_str (JNum n) = Inr (str_num n)"
| "py_str (JStr s) = Inr s"
| "py_str JNull = Inr ''None''"
| "py_str (JBool b) = Inr (if b then ''True'' else ''False'')"
| "py_str (JList xs) = Inl Unmodelled"
| "py_str (JObj kvs) = Inl Unmodelled"

subsection \<open>\<open>int(v * 1024)\<close>\<close>

text \<open>
  Multiplying a double by 1024 only changes its exponent, so the product is exact, unless
  it reaches \<open>2 ^ 1024\<close>, where it is infinite.
\<close>

fun float_mul_1024 :: "pyfloat \<Rightarrow> pyfloat" where
  "float_mul_1024 NaN = NaN"
| "float_mul_1024 (Inf s) = Inf s"
| "float_mul_1024 (Finite s m e) =
     (if magnitude m (e + 10) < 2 ^ 1024 then Finite s m (e + 10) else Inf s)"

text \<open>\<open>int\<close> of a float drops the fractional part (it rounds toward zero).\<close>

fun float_to_int :: "pyfloat \<Rightarrow> pyerr + int" where
  "float_to_int NaN = Inl ValueError"
| "float_to_int (Inf s) = Inl OverflowError"
| "float_to_int (Finite s m e) =
     (let a = (if 0 \<le> e then int m * 2 ^ nat e else int m div 2 ^ nat (- e))
      in Inr (if s then - a else a))"

fun int_times_1024 :: "json \<Rightarrow> pyerr + int" where
  "int_times_1024 (JNum (PInt i)) = Inr (i * 1024)"
| "int_times_1024 (JNum (PFloat f)) = float_to_int (float_mul_1024 f)"
| "int_times_1024 (JBool b) = Inr (if b then 1024 else 0)"
| "int_times_1024 JNull = Inl TypeError"
| "int_times_1024 (JObj kvs) = Inl TypeError"
| "int_times_1024 (JList xs) = Inl TypeError"
| "int_times_1024 (JStr s) = Inl Unmodelled"

section \<open>The locator: \<open>find_workload\<close>\<close>

text \<open>The diagnostics of the program; \<open>quoted s\<close> is \<open>s\<close> between apostrophes.\<close>

definition quoted :: "string \<Rightarrow> string" where
  "quoted s = [CHR 0x27] @ s @ [CHR 0x27]"

definition schema_message :: string where
  "schema_message = ''Unexpected API response format: '' @ quoted ''workloads'' @ '' field not found''"

definition container_message :: "string \<Rightarrow> string" where
  "container_message container_name = ''Container '' @ quoted container_name @ '' not found in workload''"

definition not_found_message :: "string \<Rightarrow> string \<Rightarrow> string" where
  "not_found_message name namespace =
     ''Workload '' @ quoted name @ '' not found in namespace '' @ quoted namespace"

definition no_recommendations_message :: "string \<Rightarrow> string" where
  "no_recommendations_message name = ''No recommendations found for workload '' @ quoted name"

text \<open>
  The condition of the scan,
  \<^verbatim>\<open>workload["name"] == name and workload["namespace"] == namespace\<close>:
  \<open>and\<close> evaluates its right operand only when the left one is true.
\<close>

definition workload_matches :: "json \<Rightarrow> string \<Rightarrow> string \<Rightarrow> pyerr + bool" where
  "workload_matches workload name namespace =
     pybind (py_getitem workload ''name'') (\<lambda>v.
       if v = JStr name
       then pybind (py_getitem workload ''namespace'') (\<lambda>u. Inr (u = JStr namespace))
       else Inr False)"

text \<open>The \<open>for\<close> loop of \<open>find_workload\<close>; falling out of it returns \<open>None\<close>.\<close>

fun scan_workloads :: "json list \<Rightarrow> string \<Rightarrow> string \<Rightarrow> pyerr + json" where
  "scan_workloads [] name namespace = Inr JNull"
| "scan_workloads (workload # rest) name namespace =
     (case workload_matches workload name namespace of
        Inl e \<Rightarrow> Inl e
      | Inr True \<Rightarrow> Inr workload
      | Inr False \<Rightarrow> scan_workloads rest name namespace)"

text \<open>
  A call returns what it printed on standard error together with its result or the
  exception that left it.
\<close>

definition find_workload :: "json \<Rightarrow> string \<Rightarrow> string \<Rightarrow> string list \<times> (pyerr + json)" where
  "find_workload workloads_data name namespace =
     (case py_contains ''workloads'' workloads_data of
        Inl e \<Rightarrow> ([], Inl e)
      | Inr False \<Rightarrow>
          ([schema_message], Inl (SystemExit 1))
      | Inr True \<Rightarrow>
          ([], pybind (py_getitem workloads_data ''workloads'') (\<lambda>ws.
               pybind (py_iter ws) (\<lambda>l. scan_workloads l name namespace))))"

section \<open>The patch builder: \<open>create_kubernetes_patch\<close>\<close>

text \<open>
  The body of \<open>if container["recommendation"].get("requests")\<close>, and of the same
  statement for \<open>limits\<close>: the dictionary built from the section \<open>r\<close>.
\<close>

definition resource_fields :: "json \<Rightarrow> pyerr + json" where
  "resource_fields r =
     pybind (py_contains ''cpuCores'' r) (\<lambda>has_cpu.
     pybind (if has_cpu
             then pybind (py_getitem r ''cpuCores'') (\<lambda>v.
                  pybind (py_str v) (\<lambda>s. Inr [(''cpu'', JStr s)]))
             else Inr []) (\<lambda>cpu.
     pybind (py_contains ''memoryGib'' r) (\<lambda>has_mem.
     pybind (if has_mem
             then pybind (py_getitem r ''memoryGib'') (\<lambda>v.
                  pybind (int_times_1024 v) (\<lambda>mem_mi. Inr [(''memory'', JStr (str_int mem_mi @ ''Mi''))]))
             else Inr []) (\<lambda>mem.
     Inr (JObj (cpu @ mem))))))"

definition resource_section :: "json \<Rightarrow> string \<Rightarrow> pyerr + (string \<times> json) list" where
  "resource_section recommendation sec =
     pybind (py_get recommendation sec) (\<lambda>g.
       if truthy g
       then pybind (py_getitem recommendation sec) (\<lambda>r.
            pybind (resource_fields r) (\<lambda>fields. Inr [(sec, fields)]))
       else Inr [])"

text \<open>
  One round of the main loop: \<open>None\<close> when the container is skipped or its block is not
  appended, \<open>Some\<close> of the appended \<open>container_patch\<close> otherwise.
\<close>

definition container_block :: "json \<Rightarrow> pyerr + json option" where
  "container_block container =
     pybind (py_get container ''recommendation'') (\<lambda>g.
       if \<not> truthy g then Inr None
       else
         pybind (py_getitem container ''name'') (\<lambda>nm.
         pybind (py_getitem container ''recommendation'') (\<lambda>recommendation.
         pybind (resource_section recommendation ''requests'') (\<lambda>requests.
         pybind (resource_section recommendation ''limits'') (\<lambda>limits.
           let resources = requests @ limits
           in Inr (if resources \<noteq> []
                   then Some (JObj [(''name'', nm), (''resources'', JObj resources)])
                   else None))))))"

fun build_blocks :: "json list \<Rightarrow> pyerr + json list" where
  "build_blocks [] = Inr []"
| "build_blocks (container # rest) =
     (case container_block container of
        Inl e \<Rightarrow> Inl e
      | Inr r \<Rightarrow>
          (case build_blocks rest of
             Inl e \<Rightarrow> Inl e
           | Inr bs \<Rightarrow> Inr (case r of None \<Rightarrow> bs | Some b \<Rightarrow> b # bs)))"

text \<open>The filter loop: the first container with the requested name, then \<open>break\<close>.\<close>

fun first_named :: "json list \<Rightarrow> string \<Rightarrow> pyerr + json list" where
  "first_named [] container_name = Inr []"
| "first_named (container # rest) container_name =
     (case py_getitem container ''name'' of
        Inl e \<Rightarrow> Inl e
      | Inr v \<Rightarrow> if v = JStr container_name then Inr [container]
                else first_named rest container_name)"

text \<open>
  The filter block: what it prints and the value of \<open>containers_to_update\<close> after it,
  \<open>None\<close> when the block returns because the requested container was not found.
\<close>

definition containers_to_update :: "json \<Rightarrow> string option \<Rightarrow> pyerr + string list \<times> json option" where
  "containers_to_update workload container_name =
     (case container_name of
        Some n \<Rightarrow>
          if n \<noteq> []
          then pybind (py_getitem workload ''containers'') (\<lambda>cs.
               pybind (py_iter cs) (\<lambda>l.
               pybind (first_named l n) (\<lambda>sel.
                 Inr (if sel = [] then ([container_message n], None) else ([], Some (JList sel))))))
          else pybind (py_getitem workload ''containers'') (\<lambda>cs. Inr ([], Some cs))
      | None \<Rightarrow> pybind (py_getitem workload ''containers'') (\<lambda>cs. Inr ([], Some cs)))"

definition patch_document :: "json \<Rightarrow> json \<Rightarrow> json \<Rightarrow> json list \<Rightarrow> json" where
  "patch_document kind nm ns blocks =
     JObj [(''apiVersion'', JStr ''apps/v1''),
           (''kind'', kind),
           (''metadata'', JObj [(''name'', nm), (''namespace'', ns)]),
           (''spec'', JObj [(''template'', JObj [(''spec'', JObj [(''containers'', JList blocks)])])])]"

definition create_kubernetes_patch :: "json \<Rightarrow> string option \<Rightarrow> string list \<times> (pyerr + json)" where
  "create_kubernetes_patch workload container_name =
     (if \<not> truthy workload then ([], Inr JNull)
      else
        case pybind (py_getitem workload ''kind'') (\<lambda>kind.
             pybind (py_getitem workload ''name'') (\<lambda>nm.
             pybind (py_getitem workload ''namespace'') (\<lambda>ns.
             pybind (containers_to_update workload container_name) (\<lambda>ctu.
               Inr (kind, nm, ns, ctu))))) of
          Inl e \<Rightarrow> ([], Inl e)
        | Inr (kind, nm, ns, printed, None) \<Rightarrow> (printed, Inr JNull)
        | Inr (kind, nm, ns, printed, Some ctu) \<Rightarrow>
            (case pybind (py_iter ctu) build_blocks of
               Inl e \<Rightarrow> (printed, Inl e)
             | Inr blocks \<Rightarrow>
                 (printed, Inr (if blocks = [] then JNull else patch_document kind nm ns blocks))))"

section \<open>The command driver: \<open>main\<close>\<close>

record args =
  arg_cluster_id :: string
  arg_api_key :: string
  arg_name :: string
  arg_namespace :: string
  arg_container :: "string option"
  arg_output_file :: "string option"
  arg_pretty :: bool

text \<open>
  What the run writes: a line of text, or \<open>json.dumps(patch, indent=indent)\<close>, kept as
  the value and the indentation it was serialised with.
\<close>

datatype text_out = Line string | Dumps json "nat option"

record run =
  stderr :: "string list"
  stdout :: "text_out list"
  written :: "(string \<times> text_out) list"
  outcome :: "pyerr + unit"

text \<open>The exit status of the process: an uncaught exception ends it with status 1.\<close>

fun exit_code :: "pyerr + unit \<Rightarrow> int" where
  "exit_code (Inr u) = 0"
| "exit_code (Inl (SystemExit n)) = n"
| "exit_code (Inl e) = 1"

definition failed :: "string list \<Rightarrow> pyerr \<Rightarrow> run" where
  "failed msgs e = \<lparr>stderr = msgs, stdout = [], written = [], outcome = Inl e\<rparr>"

text \<open>
  \<open>main\<close> after \<open>parse_args\<close>.  The fetcher talks to the network, so its result (what it
  printed on standard error, and the decoded body or the exception) is an argument.
  Opening and writing the output file is taken to succeed.
\<close>

definition main :: "args \<Rightarrow> string list \<times> (pyerr + json) \<Rightarrow> run" where
  "main a fetched =
     (case fetched of
        (log0, Inl e) \<Rightarrow> failed log0 e
      | (log0, Inr workloads_data) \<Rightarrow>
          (case find_workload workloads_data (arg_name a) (arg_namespace a) of
             (log1, Inl e) \<Rightarrow> failed (log0 @ log1) e
           | (log1, Inr workload) \<Rightarrow>
               if \<not> truthy workload
               then failed (log0 @ log1 @ [not_found_message (arg_name a) (arg_namespace a)])
                      (SystemExit 1)
               else
                 (case create_kubernetes_patch workload (arg_container a) of
                    (log2, Inl e) \<Rightarrow> failed (log0 @ log1 @ log2) e
                  | (log2, Inr patch) \<Rightarrow>
                      if \<not> truthy patch
                      then failed (log0 @ log1 @ log2 @ [no_recommendations_message (arg_name a)])
                             (SystemExit 1)
                      else
                        let indent = (if arg_pretty a then Some 2 else None);
                            patch_json = Dumps patch indent
                        in (case arg_output_file a of
                              Some f \<Rightarrow>
                                if f \<noteq> []
                                then \<lparr>stderr = log0 @ log1 @ log2, stdout = [Line (''Patch written to '' @ f)],
                                      written = [(f, patch_json)], outcome = Inr ()\<rparr>
                                else \<lparr>stderr = log0 @ log1 @ log2, stdout = [patch_json],
                                      written = [], outcome = Inr ()\<rparr>
                            | None \<Rightarrow>
                                \<lparr>stderr = log0 @ log1 @ log2, stdout = [patch_json],
                                 written = [], outcome = Inr ()\<rparr>))))"

section \<open>Reading the result\<close>

text \<open>\<open>json_path v [k1, ..., kn]\<close> is \<open>v[k1]...[kn]\<close> when every step is a dictionary with the key.\<close>

fun json_path :: "json \<Rightarrow> string list \<Rightarrow> json option" where
  "json_path v [] = Some v"
| "json_path (JObj kvs) (k # ks) = (case map_of kvs k of None \<Rightarrow> None | Some u \<Rightarrow> json_path u ks)"
| "json_path v (k # ks) = None"

text \<open>The container blocks of a patch, \<open>patch["spec"]["template"]["spec"]["containers"]\<close>.\<close>

definition patch_containers :: "json \<Rightarrow> json list" where
  "patch_containers p =
     (case json_path p [''spec'', ''template'', ''spec'', ''containers''] of
        Some (JList bs) \<Rightarrow> bs
      | _ \<Rightarrow> [])"

text \<open>The containers the main loop runs over: what iterating \<open>containers_to_update\<close> yields.\<close>

definition considered_containers :: "json \<Rightarrow> string option \<Rightarrow> pyerr + json list" where
  "considered_containers workload container_name =
     pybind (containers_to_update workload container_name) (\<lambda>ctu.
       case snd ctu of None \<Rightarrow> Inr [] | Some v \<Rightarrow> py_iter v)"

text \<open>The rational number a finite Python number denotes.\<close>

fun float_value :: "pyfloat \<Rightarrow> rat" where
  "float_value (Finite s m e) = (if s then - magnitude m e else magnitude m e)"
| "float_value (Inf s) = 0"
| "float_value NaN = 0"

fun num_value :: "pynum \<Rightarrow> rat" where
  "num_value (PInt i) = of_int i"
| "num_value (PFloat f) = float_value f"

definition toward_zero :: "rat \<Rightarrow> int" where
  "toward_zero x = (if 0 \<le> x then \<lfloor>x\<rfloor> else \<lceil>x\<rceil>)"

section \<open>Sample inputs\<close>

text \<open>
  One container with requests \<open>{cpuCores: 0.25, memoryGib: 1}\<close> and limits
  \<open>{cpuCores: 0.5, memoryGib: 2}\<close>, and a workload holding it.
\<close>

definition example_container :: json where
  "example_container =
     JObj [(''name'', JStr ''app''),
           (''recommendation'',
            JObj [(''requests'', JObj [(''cpuCores'', JNum (PFloat (Finite False 1 (- 2)))),
                                       (''memoryGib'', JNum (PInt 1))]),
                  (''limits'', JObj [(''cpuCores'', JNum (PFloat (Finite False 1 (- 1)))),
                                     (''memoryGib'', JNum (PInt 2))])])]"

definition synthetic_workload :: "json \<Rightarrow> json \<Rightarrow> json \<Rightarrow> json" where
  "synthetic_workload kind nm ns =
     JObj [(''name'', nm), (''namespace'', ns), (''kind'', kind),
           (''containers'', JList [example_container])]"

definition example_workload :: json where
  "example_workload = synthetic_workload (JStr ''Deployment'') (JStr ''web'') (JStr ''default'')"

definition example_block :: json where
  "example_block =
     JObj [(''name'', JStr ''app''),
           (''resources'',
            JObj [(''requests'', JObj [(''cpu'', JStr ''0.25''), (''memory'', JStr ''1024Mi'')]),
                  (''limits'', JObj [(''cpu'', JStr ''0.5''), (''memory'', JStr ''2048Mi'')])])]"

definition example_args :: args where
  "example_args =
     \<lparr>arg_cluster_id = ''c1'', arg_api_key = ''secret'', arg_name = ''web'',
      arg_namespace = ''default'', arg_container = None, arg_output_file = None,
      arg_pretty = False\<rparr>"

text \<open>A container whose recommendation is null, and one with memory values 0.5 and 1.5 GiB.\<close>

definition sidecar_container :: json where
  "sidecar_container = JObj [(''name'', JStr ''sidecar''), (''recommendation'', JNull)]"

definition memory_container :: json where
  "memory_container =
     JObj [(''name'', JStr ''db''),
           (''recommendation'',
            JObj [(''requests'', JObj [(''memoryGib'', JNum (PFloat (Finite False 1 (- 1))))]),
                  (''limits'', JObj [(''memoryGib'', JNum (PFloat (Finite False 3 (- 1))))])])]"

definition memory_block :: json where
  "memory_block =
     JObj [(''name'', JStr ''db''),
           (''resources'', JObj [(''requests'', JObj [(''memory'', JStr ''512Mi'')]),
                                 (''limits'', JObj [(''memory'', JStr ''1536Mi'')])])]"

definition three_containers_workload :: json where
  "three_containers_workload =
     JObj [(''name'', JStr ''web''), (''namespace'', JStr ''default''), (''kind'', JStr ''Deployment''),
           (''containers'', JList [example_container, sidecar_container, memory_container])]"

definition three_containers_patch :: json where
  "three_containers_patch =
     patch_document (JStr ''Deployment'') (JStr ''web'') (JStr ''default'') [example_block, memory_block]"

text \<open>Two more workloads: another name, and the same name and namespace as the example.\<close>

definition other_workload :: json where
  "other_workload =
     JObj [(''name'', JStr ''api''), (''namespace'', JStr ''default''), (''kind'', JStr ''Deployment''),
           (''containers'', JList [])]"


text \<open>A recommendation whose \<open>requests\<close> has a key, but neither \<open>cpuCores\<close> nor \<open>memoryGib\<close>.\<close>

definition unknown_keys_workload :: json where
  "unknown_keys_workload =
     JObj [(''name'', JStr ''web''), (''namespace'', JStr ''default''), (''kind'', JStr ''Deployment''),
           (''containers'', JList
              [JObj [(''name'', JStr ''app''),
                     (''recommendation'', JObj [(''requests'', JObj [(''cpu'', JStr ''100m'')])])]])]"

text \<open>A memory value of \<open>-1/2048\<close> GiB, that is \<open>-0.00048828125\<close>.\<close>

definition negative_memory_workload :: json where
  "negative_memory_workload =
     JObj [(''name'', JStr ''web''), (''namespace'', JStr ''default''), (''kind'', JStr ''Deployment''),
           (''containers'', JList
              [JObj [(''name'', JStr ''app''),
                     (''recommendation'',
                      JObj [(''requests'', JObj [(''memoryGib'', JNum (PFloat (Finite True 1 (- 11))))])])]])]"

section \<open>Basic facts about the primitives\<close>

lemma pybind_Inr_iff: "pybind r f = Inr y \<longleftrightarrow> (\<exists>x. r = Inr x \<and> f x = Inr y)"
  by (cases r) (simp_all add: pybind_def)

lemma pybind_Inr [simp]: "pybind (Inr x) f = f x"
  by (simp add: pybind_def)

lemma pybind_Inl [simp]: "pybind (Inl e) f = Inl e"
  by (simp add: pybind_def)

lemma not_truthy_getitem: "\<not> truthy w \<Longrightarrow> \<exists>e. py_getitem w k = Inl e"
  by (cases w) auto

lemma getitem_truthy: "py_getitem w k = Inr v \<Longrightarrow> truthy w"
  by (cases w) (auto split: option.splits)

lemma getitem_contains: "py_getitem d k = Inr v \<Longrightarrow> py_contains k d = Inr True"
  by (cases d) (auto split: option.splits)

lemma json_path_2:
  "json_path v [k1, k2] = Some u \<Longrightarrow>
     \<exists>m1 m2. v = JObj m1 \<and> map_of m1 k1 = Some (JObj m2) \<and> map_of m2 k2 = Some u"
  by (cases v) (auto split: option.splits json.splits elim: json_path.elims)

lemma json_path_3:
  assumes "json_path v [k0, k1, k2] = Some u"
  shows "\<exists>m0 m1 m2. v = JObj m0 \<and> map_of m0 k0 = Some (JObj m1) \<and> map_of m1 k1 = Some (JObj m2)
           \<and> map_of m2 k2 = Some u"
proof -
  from assms obtain m0 where v: "v = JObj m0" by (cases v) auto
  with assms obtain w where w: "map_of m0 k0 = Some w" "json_path w [k1, k2] = Some u"
    by (auto split: option.splits)
  from json_path_2 [OF w(2)] v w(1) show ?thesis by auto
qed

lemma json_path_extend:
  "json_path b [k1, k2] = Some f \<Longrightarrow> json_path f [k3] = Some u \<Longrightarrow>
     json_path b [k1, k2, k3] = Some u"
  by (cases b) (auto split: option.splits elim!: json_path.elims)

lemma patch_containers_document [simp]: "patch_containers (patch_document kind nm ns bs) = bs"
  by (simp add: patch_containers_def patch_document_def)

lemma patch_containers_JNull [simp]: "patch_containers JNull = []"
  by (simp add: patch_containers_def)

subsection \<open>Multiplying by 1024 and dropping the fraction\<close>

lemma pow2_powi: "pow2 e = power_int 2 e"
  by (simp add: pow2_def power_int_def field_simps)

lemma pow2_add: "pow2 (a + b) = pow2 a * pow2 b"
  by (simp add: pow2_powi power_int_add)

lemma magnitude_shift: "magnitude m (e + 10) = magnitude m e * 1024"
proof -
  have "pow2 10 = 1024" by (simp add: pow2_def)
  then show ?thesis by (simp add: magnitude_def pow2_add)
qed

lemma magnitude_nonneg: "0 \<le> magnitude m e"
  by (simp add: magnitude_def pow2_def)

lemma floor_magnitude:
  "\<lfloor>magnitude m e\<rfloor> = (if 0 \<le> e then int m * 2 ^ nat e else int m div 2 ^ nat (- e))"
proof (cases "0 \<le> e")
  case True
  have "magnitude m e = of_int (int m * 2 ^ nat e)"
    using True by (simp add: magnitude_def pow2_def)
  then show ?thesis using True by (simp del: of_int_mult of_int_power)
next
  case False
  have "magnitude m e = of_int (int m) / of_int (2 ^ nat (- e))"
    using False by (simp add: magnitude_def pow2_def)
  then have "\<lfloor>magnitude m e\<rfloor> = int m div 2 ^ nat (- e)"
    by (simp only: floor_divide_of_int_eq)
  then show ?thesis using False by simp
qed

lemma toward_zero_neg: "0 \<le> x \<Longrightarrow> toward_zero (- x) = - \<lfloor>x\<rfloor>"
  by (auto simp: toward_zero_def ceiling_def)

lemma toward_zero_nonneg: "0 \<le> x \<Longrightarrow> toward_zero x = \<lfloor>x\<rfloor>"
  by (simp add: toward_zero_def)

lemma float_to_int_value:
  "float_to_int (Finite s m e) = Inr (toward_zero (float_value (Finite s m e)))"
  using floor_magnitude [of m e]
  by (simp add: Let_def toward_zero_neg toward_zero_nonneg magnitude_nonneg)

lemma int_times_1024_value:
  assumes "int_times_1024 (JNum g) = Inr i"
  shows "i = toward_zero (num_value g * 1024)"
proof (cases g)
  case (PInt j)
  have "(of_int j :: rat) * 1024 = of_int (j * 1024)"
    by simp
  then have "toward_zero (of_int j * 1024) = j * 1024"
    unfolding toward_zero_def by (simp only: floor_of_int ceiling_of_int if_cancel)
  with assms PInt show ?thesis by simp
next
  case (PFloat f)
  show ?thesis
  proof (cases f)
    case (Finite s m e)
    with assms PFloat have "magnitude m (e + 10) < 2 ^ 1024"
      by (simp split: if_splits)
    with assms PFloat Finite have "float_to_int (Finite s m (e + 10)) = Inr i"
      by simp
    then have "i = toward_zero (float_value (Finite s m (e + 10)))"
      by (simp only: float_to_int_value) simp
    also have "float_value (Finite s m (e + 10)) = float_value (Finite s m e) * 1024"
      by (simp add: magnitude_shift)
    finally show ?thesis using PFloat Finite by simp
  next
    case (Inf s)
    with assms PFloat show ?thesis by simp
  next
    case NaN
    with assms PFloat show ?thesis by simp
  qed
qed

section \<open>The scan of the locator\<close>


lemma scan_error:
  assumes "\<forall>u \<in> set pre. workload_matches u nm ns = Inr False"
    and "workload_matches w nm ns = Inl e"
  shows "scan_workloads (pre @ w # post) nm ns = Inl e"
  using assms by (induction pre) simp_all



lemma workload_matches_KeyError:
  assumes "map_of u ''name'' = None
     \<or> (map_of u ''name'' = Some (JStr nm) \<and> map_of u ''namespace'' = None)"
  shows "workload_matches (JObj u) nm ns
           = Inl (KeyError (if map_of u ''name'' = None then ''name'' else ''namespace''))"
  using assms by (auto simp: workload_matches_def)

lemma workload_matches_other_name:
  "map_of u ''name'' = Some v \<Longrightarrow> v \<noteq> JStr nm \<Longrightarrow> workload_matches (JObj u) nm ns = Inr False"
  by (simp add: workload_matches_def)

lemma find_workload_list:
  "py_getitem d ''workloads'' = Inr (JList ws) \<Longrightarrow>
     find_workload d nm ns = ([], scan_workloads ws nm ns)"
  by (simp add: find_workload_def getitem_contains)

text \<open>Whatever the scan returns, other than \<open>None\<close>, is the first element that matches.\<close>

lemma scan_sound:
  "scan_workloads ws nm ns = Inr w \<Longrightarrow> w \<noteq> JNull \<Longrightarrow>
     \<exists>pre post. ws = pre @ w # post \<and> workload_matches w nm ns = Inr True
        \<and> (\<forall>u \<in> set pre. workload_matches u nm ns = Inr False)"
proof (induction ws)
  case Nil
  then show ?case by simp
next
  case (Cons a ws)
  show ?case
  proof (cases "workload_matches a nm ns")
    case (Inl e)
    with Cons.prems show ?thesis by simp
  next
    case (Inr b)
    show ?thesis
    proof (cases b)
      case True
      with Inr Cons.prems have "a = w" by simp
      with Inr True have "a # ws = [] @ w # ws \<and> workload_matches w nm ns = Inr True
          \<and> (\<forall>u \<in> set []. workload_matches u nm ns = Inr False)" by simp
      then show ?thesis by blast
    next
      case False
      with Inr Cons.prems have "scan_workloads ws nm ns = Inr w" by simp
      from Cons.IH [OF this Cons.prems(2)] obtain pre post where
        "ws = pre @ w # post" "workload_matches w nm ns = Inr True"
        "\<forall>u \<in> set pre. workload_matches u nm ns = Inr False" by blast
      with Inr False have "a # ws = (a # pre) @ w # post \<and> workload_matches w nm ns = Inr True
          \<and> (\<forall>u \<in> set (a # pre). workload_matches u nm ns = Inr False)" by simp
      then show ?thesis by blast
    qed
  qed
qed

section \<open>The loops of the patch builder\<close>

lemma build_blocks_mem:
  "build_blocks cs = Inr bs \<Longrightarrow> c \<in> set cs \<Longrightarrow>
     \<exists>r. container_block c = Inr r \<and> (\<forall>b. r = Some b \<longrightarrow> b \<in> set bs)"
proof (induction cs arbitrary: bs)
  case Nil
  then show ?case by simp
next
  case (Cons a cs)
  then show ?case
    by (auto split: sum.splits option.splits)
qed

lemma build_blocks_origin:
  "build_blocks cs = Inr bs \<Longrightarrow> b \<in> set bs \<Longrightarrow> \<exists>c \<in> set cs. container_block c = Inr (Some b)"
proof (induction cs arbitrary: bs)
  case Nil
  then show ?case by simp
next
  case (Cons a cs)
  then show ?case
    by (auto split: sum.splits option.splits)
qed

lemma build_blocks_subseq:
  "build_blocks cs = Inr bs \<Longrightarrow>
     \<exists>kept. subseq kept cs \<and> map container_block kept = map (\<lambda>b. Inr (Some b)) bs"
proof (induction cs arbitrary: bs)
  case Nil
  then show ?case by simp
next
  case (Cons a cs)
  from Cons.prems obtain r bs' where r: "container_block a = Inr r"
    and rest: "build_blocks cs = Inr bs'"
    and bs: "bs = (case r of None \<Rightarrow> bs' | Some b \<Rightarrow> b # bs')"
    by (auto split: sum.splits)
  from Cons.IH [OF rest] obtain kept where kept: "subseq kept cs"
    "map container_block kept = map (\<lambda>b. Inr (Some b)) bs'"
    by blast
  show ?case
  proof (cases r)
    case None
    with kept bs show ?thesis
      by (intro exI [of _ kept]) (simp add: list_emb_Cons)
  next
    case (Some b)
    with kept bs r show ?thesis
      by (intro exI [of _ "a # kept"]) simp
  qed
qed

lemma build_blocks_filter:
  "build_blocks cs = Inr bs \<Longrightarrow> (\<forall>c \<in> set cs. \<not> P c \<longrightarrow> container_block c = Inr None) \<Longrightarrow>
     build_blocks (filter P cs) = Inr bs"
proof (induction cs arbitrary: bs)
  case Nil
  then show ?case by simp
next
  case (Cons a cs)
  then show ?case
    by (auto split: sum.splits option.splits)
qed

lemma first_named_subseq: "first_named cs n = Inr sel \<Longrightarrow> subseq sel cs"
proof (induction cs)
  case Nil
  then show ?case by simp
next
  case (Cons a cs)
  then show ?case
    by (cases "py_getitem a ''name''") (auto split: if_splits)
qed

lemma first_named_none:
  "\<forall>c \<in> set cs. \<exists>v. py_getitem c ''name'' = Inr v \<and> v \<noteq> JStr n \<Longrightarrow> first_named cs n = Inr []"
  by (induction cs) auto

subsection \<open>One container\<close>

lemma container_block_no_recommendation:
  "py_get c ''recommendation'' = Inr g \<Longrightarrow> \<not> truthy g \<Longrightarrow> container_block c = Inr None"
  by (simp add: container_block_def)

lemma container_block_Some_recommendation:
  "container_block c = Inr (Some b) \<Longrightarrow> \<exists>g. py_get c ''recommendation'' = Inr g \<and> truthy g"
  by (cases "py_get c ''recommendation''") (auto simp: container_block_def split: if_splits)

lemma container_block_name:
  "container_block c = Inr (Some b) \<Longrightarrow> py_getitem b ''name'' = py_getitem c ''name''"
  by (auto simp: container_block_def pybind_Inr_iff Let_def split: if_splits)

text \<open>A recommendation with empty \<open>requests\<close> and empty \<open>limits\<close> gives no block.\<close>

lemma container_block_empty_sections:
  "container_block (JObj [(''name'', nm),
      (''recommendation'', JObj [(''requests'', JObj []), (''limits'', JObj [])])]) = Inr None"
  by (simp add: container_block_def resource_section_def)

lemma blocks_names:
  "map container_block kept = map (\<lambda>b. Inr (Some b)) bs \<Longrightarrow>
     map (\<lambda>b. py_getitem b ''name'') bs = map (\<lambda>c. py_getitem c ''name'') kept"
proof (induction kept arbitrary: bs)
  case Nil
  then show ?case by simp
next
  case (Cons a kept)
  then obtain b bs' where "bs = b # bs'" "container_block a = Inr (Some b)"
    "map container_block kept = map (\<lambda>b. Inr (Some b)) bs'"
    by (cases bs) auto
  with Cons.IH [of bs'] show ?case
    by (simp add: container_block_name)
qed


lemma resource_fields_memory:
  assumes "resource_fields (JObj m) = Inr f" and "map_of m ''memoryGib'' = Some (JNum g)"
  shows "json_path f [''memory'']
           = Some (JStr (str_int (toward_zero (num_value g * 1024)) @ ''Mi''))"
  using assms
  by (auto simp: resource_fields_def pybind_Inr_iff dest: int_times_1024_value split: if_splits)

lemma resource_section_fields:
  assumes "resource_section (JObj m1) sec = Inr s"
    and "map_of m1 sec = Some (JObj m2)" and "map_of m2 key = Some v"
  shows "\<exists>f. s = [(sec, f)] \<and> resource_fields (JObj m2) = Inr f"
proof -
  from assms(3) have "m2 \<noteq> []" by auto
  with assms(1,2) show ?thesis
    by (auto simp: resource_section_def pybind_Inr_iff split: if_splits)
qed

lemma resource_section_shape:
  "resource_section r sec = Inr s \<Longrightarrow> s = [] \<or> (\<exists>f. s = [(sec, f)])"
  by (auto simp: resource_section_def pybind_Inr_iff split: if_splits)

text \<open>
  A container whose recommendation has the key \<open>key\<close> under \<open>requests\<close> or \<open>limits\<close> gets a
  block, and the block has the section, built by \<open>resource_fields\<close>.
\<close>

lemma container_block_section:
  assumes "container_block c = Inr r"
    and "json_path c [''recommendation'', sec, key] = Some v"
    and "sec = ''requests'' \<or> sec = ''limits''"
  shows "\<exists>b f m. r = Some b \<and> py_getitem b ''name'' = py_getitem c ''name''
           \<and> json_path b [''resources'', sec] = Some f
           \<and> map_of m key = Some v \<and> resource_fields (JObj m) = Inr f"
proof -
  from json_path_3 [OF assms(2)] obtain m0 m1 m2 where c: "c = JObj m0"
    and m0: "map_of m0 ''recommendation'' = Some (JObj m1)"
    and m1: "map_of m1 sec = Some (JObj m2)" and m2: "map_of m2 key = Some v"
    by blast
  from m1 have ne: "m1 \<noteq> []" by auto
  from assms(1) c m0 ne obtain nm rq lm where nm: "py_getitem c ''name'' = Inr nm"
    and rq: "resource_section (JObj m1) ''requests'' = Inr rq"
    and lm: "resource_section (JObj m1) ''limits'' = Inr lm"
    and r: "r = (if rq @ lm \<noteq> []
                 then Some (JObj [(''name'', nm), (''resources'', JObj (rq @ lm))]) else None)"
    by (auto simp: container_block_def pybind_Inr_iff Let_def split: option.splits)
  from assms(3) show ?thesis
  proof
    assume sec: "sec = ''requests''"
    from resource_section_fields [OF rq m1 [unfolded sec] m2] obtain f
      where "rq = [(''requests'', f)]" "resource_fields (JObj m2) = Inr f" by blast
    with r nm m2 sec show ?thesis by auto
  next
    assume sec: "sec = ''limits''"
    from resource_section_fields [OF lm m1 [unfolded sec] m2] obtain f
      where f: "lm = [(''limits'', f)]" "resource_fields (JObj m2) = Inr f" by blast
    from resource_section_shape [OF rq] have "rq = [] \<or> (\<exists>g. rq = [(''requests'', g)])" .
    with f r nm m2 sec show ?thesis by auto
  qed
qed

subsection \<open>The whole builder\<close>

text \<open>
  When the builder returns, the blocks of its result are what the main loop builds from
  the considered containers.
\<close>

lemma ckp_blocks:
  assumes "create_kubernetes_patch w cn = (msgs, Inr p)"
    and "considered_containers w cn = Inr cs"
  shows "build_blocks cs = Inr (patch_containers p)"
proof (cases "truthy w")
  case False
  then obtain e where "py_getitem w ''containers'' = Inl e"
    using not_truthy_getitem by blast
  then have "\<exists>e. considered_containers w cn = Inl e"
    by (simp add: considered_containers_def containers_to_update_def split: option.splits)
  with assms(2) show ?thesis by auto
next
  case True
  from assms(2) obtain printed ctu where ctu: "containers_to_update w cn = Inr (printed, ctu)"
    and it: "(case ctu of None \<Rightarrow> Inr [] | Some v \<Rightarrow> py_iter v) = Inr cs"
    by (auto simp: considered_containers_def pybind_Inr_iff)
  from assms(1) True ctu show ?thesis
    using it
    by (cases "py_getitem w ''kind''"; cases "py_getitem w ''name''";
        cases "py_getitem w ''namespace''"; cases ctu)
       (auto simp: create_kubernetes_patch_def split: sum.splits if_splits)
qed

lemma ckp_considered:
  assumes "create_kubernetes_patch w cn = (msgs, Inr p)" and "p \<noteq> JNull"
  shows "\<exists>cs. considered_containers w cn = Inr cs"
proof -
  from assms have t: "truthy w"
    by (auto simp: create_kubernetes_patch_def split: if_splits)
  from assms t show ?thesis
    by (cases "py_getitem w ''kind''"; cases "py_getitem w ''name''";
        cases "py_getitem w ''namespace''"; cases "containers_to_update w cn")
       (auto simp: create_kubernetes_patch_def considered_containers_def pybind_Inr_iff
          split: option.splits sum.splits if_splits)
qed

lemma considered_subseq:
  assumes "considered_containers w cn = Inr cs'" and "py_getitem w ''containers'' = Inr (JList cs)"
  shows "subseq cs' cs"
proof (cases "\<exists>n. cn = Some n \<and> n \<noteq> []")
  case True
  then obtain n where n: "cn = Some n" "n \<noteq> []" by blast
  with assms obtain sel where sel: "first_named cs n = Inr sel"
    and cs': "cs' = (if sel = [] then [] else sel)"
    by (auto simp: considered_containers_def containers_to_update_def pybind_Inr_iff
          split: if_splits)
  from first_named_subseq [OF sel] cs' show ?thesis by simp
next
  case False
  with assms have "cs' = cs"
    by (cases cn) (auto simp: considered_containers_def containers_to_update_def)
  then show ?thesis by simp
qed

lemma ckp_not_found:
  assumes "n \<noteq> []"
    and "py_getitem w ''kind'' = Inr kind" and "py_getitem w ''name'' = Inr nm"
    and "py_getitem w ''namespace'' = Inr ns"
    and "py_getitem w ''containers'' = Inr (JList cs)"
    and "\<forall>c \<in> set cs. \<exists>v. py_getitem c ''name'' = Inr v \<and> v \<noteq> JStr n"
  shows "create_kubernetes_patch w (Some n) = ([container_message n], Inr JNull)"
proof -
  from assms(6) have "first_named cs n = Inr []" by (rule first_named_none)
  with assms(1,5) have "containers_to_update w (Some n) = Inr ([container_message n], None)"
    by (simp add: containers_to_update_def)
  with assms(2-4) getitem_truthy [OF assms(2)] show ?thesis
    by (simp add: create_kubernetes_patch_def)
qed

subsection \<open>The sample inputs, evaluated\<close>

lemma three_containers_result:
  "create_kubernetes_patch three_containers_workload None = ([], Inr three_containers_patch)"
  by code_simp

lemma three_containers_considered:
  "considered_containers three_containers_workload None
     = Inr [example_container, sidecar_container, memory_container]"
  by code_simp

lemma find_example_workload:
  "find_workload (JObj [(''workloads'', JList [example_workload])]) ''web'' ''default''
     = ([], Inr example_workload)"
  by code_simp

section \<open>Memory in mebibytes\<close>

text \<open>
  Claim C1, as amended.  Whenever the builder returns, every finite memory value \<open>g\<close>
  (in GiB) under \<open>requests\<close> or \<open>limits\<close> of a considered container's recommendation is
  emitted, in the same section of that container's block, as the decimal representation of
  \<open>g * 1024\<close> with its fractional part dropped (rounded toward zero), followed by \<open>Mi\<close>; the
  product \<open>g * 1024\<close> itself is exact.  For \<open>g \<ge> 0\<close> this is \<open>floor (g * 1024)\<close>.
\<close>

theorem memory_truncated_mebibytes:
  assumes "create_kubernetes_patch w cn = (msgs, Inr p)"
    and "considered_containers w cn = Inr cs" and "c \<in> set cs"
    and "sec = ''requests'' \<or> sec = ''limits''"
    and "json_path c [''recommendation'', sec, ''memoryGib''] = Some (JNum g)"
  shows "\<exists>b. b \<in> set (patch_containers p) \<and> container_block c = Inr (Some b)
           \<and> json_path b [''resources'', sec, ''memory'']
               = Some (JStr (str_int (toward_zero (num_value g * 1024)) @ ''Mi''))
           \<and> (0 \<le> num_value g \<longrightarrow> toward_zero (num_value g * 1024) = \<lfloor>num_value g * 1024\<rfloor>)"
proof -
  from ckp_blocks [OF assms(1,2)] have bb: "build_blocks cs = Inr (patch_containers p)" .
  from build_blocks_mem [OF bb assms(3)] obtain r where r: "container_block c = Inr r"
    and mem: "\<forall>b. r = Some b \<longrightarrow> b \<in> set (patch_containers p)" by blast
  from container_block_section [OF r assms(5,4)] obtain b f m where b: "r = Some b"
    "json_path b [''resources'', sec] = Some f"
    "map_of m ''memoryGib'' = Some (JNum g)" "resource_fields (JObj m) = Inr f" by blast
  from resource_fields_memory [OF b(4,3)] b(2)
  have "json_path b [''resources'', sec, ''memory'']
          = Some (JStr (str_int (toward_zero (num_value g * 1024)) @ ''Mi''))"
    by (rule json_path_extend [rotated])
  moreover have "0 \<le> num_value g \<longrightarrow> toward_zero (num_value g * 1024) = \<lfloor>num_value g * 1024\<rfloor>"
    by (simp add: toward_zero_def)
  ultimately show ?thesis using b r mem by blast
qed

text \<open>
  The theorem at the sample workload: 1.5 GiB under \<open>limits\<close> is emitted as \<open>1536Mi\<close>;
  likewise 0.5 GiB gives 512 and 1/1024 GiB gives 1.
\<close>

theorem memory_truncated_mebibytes_witness:
  "create_kubernetes_patch three_containers_workload None = ([], Inr three_containers_patch)
   \<and> considered_containers three_containers_workload None
       = Inr [example_container, sidecar_container, memory_container]
   \<and> json_path memory_container [''recommendation'', ''limits'', ''memoryGib'']
       = Some (JNum (PFloat (Finite False 3 (- 1))))
   \<and> (\<exists>b. b \<in> set (patch_containers three_containers_patch)
          \<and> container_block memory_container = Inr (Some b)
          \<and> json_path b [''resources'', ''limits'', ''memory''] = Some (JStr ''1536Mi''))
   \<and> \<lfloor>num_value (PFloat (Finite False 3 (- 1))) * 1024\<rfloor> = 1536
   \<and> int_times_1024 (JNum (PFloat (Finite False 1 (- 1)))) = Inr 512
   \<and> int_times_1024 (JNum (PFloat (Finite False 1 (- 10)))) = Inr 1"
proof -
  note h1 = three_containers_result
  note h2 = three_containers_considered
  have h3: "memory_container \<in> set [example_container, sidecar_container, memory_container]"
    by simp
  have h4: "''limits'' = ''requests'' \<or> ''limits'' = ''limits''"
    by simp
  have h5: "json_path memory_container [''recommendation'', ''limits'', ''memoryGib'']
      = Some (JNum (PFloat (Finite False 3 (- 1))))"
    by code_simp
  have v: "str_int (toward_zero (num_value (PFloat (Finite False 3 (- 1))) * 1024)) @ ''Mi''
      = ''1536Mi''"
    by code_simp
  have f: "\<lfloor>num_value (PFloat (Finite False 3 (- 1))) * 1024\<rfloor> = 1536"
    by code_simp
  have e1: "int_times_1024 (JNum (PFloat (Finite False 1 (- 1)))) = Inr 512"
    by code_simp
  have e2: "int_times_1024 (JNum (PFloat (Finite False 1 (- 10)))) = Inr 1"
    by code_simp
  from memory_truncated_mebibytes [OF h1 h2 h3 h4 h5, unfolded v]
  have "\<exists>b. b \<in> set (patch_containers three_containers_patch)
          \<and> container_block memory_container = Inr (Some b)
          \<and> json_path b [''resources'', ''limits'', ''memory''] = Some (JStr ''1536Mi'')"
    by blast
  with h1 h2 h5 f e1 e2 show ?thesis
    by (intro conjI)
qed

text \<open>
  Claim C1 as stated fails on a negative value: \<open>-1/2048\<close> GiB is \<open>-0.5\<close> MiB, which
  \<open>int\<close> turns into 0, so the field is \<open>0Mi\<close>, while the floor is \<open>-1\<close>.
\<close>

theorem memory_floor_counterexample:
  "create_kubernetes_patch negative_memory_workload None
     = ([], Inr (patch_document (JStr ''Deployment'') (JStr ''web'') (JStr ''default'')
                  [JObj [(''name'', JStr ''app''),
                         (''resources'', JObj [(''requests'', JObj [(''memory'', JStr ''0Mi'')])])]]))
   \<and> str_int \<lfloor>num_value (PFloat (Finite True 1 (- 11))) * 1024\<rfloor> @ ''Mi'' = ''-1Mi''"
  by code_simp

section \<open>When a block is attached\<close>

text \<open>
  Claim C2 at an input where the code departs from it: the recommendation's \<open>requests\<close>
  map is not empty but has neither \<open>cpuCores\<close> nor \<open>memoryGib\<close>.  No cpu or memory field
  is produced, and yet the block, with an empty \<open>requests\<close>, is attached and the patch
  returned.
\<close>

theorem block_attached_without_fields:
  "create_kubernetes_patch unknown_keys_workload None
     = ([], Inr (patch_document (JStr ''Deployment'') (JStr ''web'') (JStr ''default'')
                  [JObj [(''name'', JStr ''app''), (''resources'', JObj [(''requests'', JObj [])])]]))"
  by code_simp

section \<open>CPU as a string\<close>



section \<open>The synthetic round trip\<close>

text \<open>
  Claim C4.  For one workload with one container whose recommendation has requests
  \<open>{cpuCores: 0.25, memoryGib: 1}\<close> and limits \<open>{cpuCores: 0.5, memoryGib: 2}\<close>, the patch has
  exactly one container block, with requests \<open>{cpu: "0.25", memory: "1024Mi"}\<close> and limits
  \<open>{cpu: "0.5", memory: "2048Mi"}\<close>, inside the document
  \<open>{apiVersion: "apps/v1", kind, metadata: {name, namespace}, spec: {template: {spec:
  {containers}}}}\<close> with kind, name and namespace those of the workload, whatever they are;
  and a run on a response holding that workload prints this patch on standard output.
\<close>

theorem synthetic_round_trip:
  "create_kubernetes_patch (synthetic_workload kind nm ns) None
     = ([], Inr (JObj
         [(''apiVersion'', JStr ''apps/v1''),
          (''kind'', kind),
          (''metadata'', JObj [(''name'', nm), (''namespace'', ns)]),
          (''spec'', JObj [(''template'', JObj [(''spec'', JObj [(''containers'', JList
             [JObj [(''name'', JStr ''app''),
                    (''resources'',
                     JObj [(''requests'', JObj [(''cpu'', JStr ''0.25''), (''memory'', JStr ''1024Mi'')]),
                           (''limits'', JObj [(''cpu'', JStr ''0.5''), (''memory'', JStr ''2048Mi'')])])]])])])])]))
   \<and> main example_args ([], Inr (JObj [(''workloads'', JList [example_workload])]))
     = \<lparr>stderr = [],
        stdout = [Dumps (patch_document (JStr ''Deployment'') (JStr ''web'') (JStr ''default'')
                    [example_block]) None],
        written = [], outcome = Inr ()\<rparr>"
  by code_simp


section \<open>The locator\<close>





section \<open>A filter that names no container\<close>

text \<open>
  Claim C7, as amended.  For a workload record (a dictionary with \<open>kind\<close>, \<open>name\<close>,
  \<open>namespace\<close> and a list of containers that all have a name) and a non-empty filter \<open>n\<close>
  that is the name of none of its containers, the builder prints the container diagnostic
  and returns \<open>None\<close>; a run that located this record then prints the two diagnostics, ends
  with \<open>sys.exit(1)\<close>, status 1, and writes no document.
\<close>

theorem container_not_found:
  assumes "n \<noteq> []"
    and "py_getitem w ''kind'' = Inr kind" and "py_getitem w ''name'' = Inr nm"
    and "py_getitem w ''namespace'' = Inr ns"
    and "py_getitem w ''containers'' = Inr (JList cs)"
    and "\<forall>c \<in> set cs. \<exists>v. py_getitem c ''name'' = Inr v \<and> v \<noteq> JStr n"
  shows "create_kubernetes_patch w (Some n) = ([container_message n], Inr JNull)
       \<and> (find_workload d (arg_name a) (arg_namespace a) = (l1, Inr w) \<and> arg_container a = Some n \<longrightarrow>
            main a (l0, Inr d)
              = \<lparr>stderr = l0 @ l1 @ [container_message n, no_recommendations_message (arg_name a)],
                 stdout = [], written = [], outcome = Inl (SystemExit 1)\<rparr>
          \<and> exit_code (outcome (main a (l0, Inr d))) = 1)"
proof -
  have "create_kubernetes_patch w (Some n) = ([container_message n], Inr JNull)"
    using assms by (rule ckp_not_found)
  moreover have "truthy w" using assms(2) by (rule getitem_truthy)
  ultimately show ?thesis
    by (simp add: main_def failed_def)
qed

text \<open>The theorem on the sample workload, whose only container is \<open>app\<close>, with filter \<open>nginx\<close>.\<close>

theorem container_not_found_witness:
  "create_kubernetes_patch example_workload (Some ''nginx'') = ([container_message ''nginx''], Inr JNull)
   \<and> main (example_args\<lparr>arg_container := Some ''nginx''\<rparr>)
        ([], Inr (JObj [(''workloads'', JList [example_workload])]))
       = \<lparr>stderr = [container_message ''nginx'', no_recommendations_message ''web''],
          stdout = [], written = [], outcome = Inl (SystemExit 1)\<rparr>"
proof -
  have h1: "''nginx'' \<noteq> []" by simp
  have h2: "py_getitem example_workload ''kind'' = Inr (JStr ''Deployment'')"
    by (simp add: example_workload_def synthetic_workload_def)
  have h3: "py_getitem example_workload ''name'' = Inr (JStr ''web'')"
    by (simp add: example_workload_def synthetic_workload_def)
  have h4: "py_getitem example_workload ''namespace'' = Inr (JStr ''default'')"
    by (simp add: example_workload_def synthetic_workload_def)
  have h5: "py_getitem example_workload ''containers'' = Inr (JList [example_container])"
    by (simp add: example_workload_def synthetic_workload_def)
  have h6: "\<forall>c \<in> set [example_container]. \<exists>v. py_getitem c ''name'' = Inr v \<and> v \<noteq> JStr ''nginx''"
    by (simp add: example_container_def)
  have a: "arg_name (example_args\<lparr>arg_container := Some ''nginx''\<rparr>) = ''web''"
    "arg_namespace (example_args\<lparr>arg_container := Some ''nginx''\<rparr>) = ''default''"
    "arg_container (example_args\<lparr>arg_container := Some ''nginx''\<rparr>) = Some ''nginx''"
    by (simp_all add: example_args_def)
  from container_not_found [OF h1 h2 h3 h4 h5 h6,
      of "JObj [(''workloads'', JList [example_workload])]"
         "example_args\<lparr>arg_container := Some ''nginx''\<rparr>" "[]" "[]"]
    find_example_workload a
  show ?thesis by simp
qed

text \<open>
  Claim C7 as stated fails on the empty filter: no container is named by the empty string,
  but the builder takes an empty filter for no filter and returns the patch of all
  containers.
\<close>

theorem empty_filter_counterexample:
  "create_kubernetes_patch example_workload (Some [])
     = ([], Inr (patch_document (JStr ''Deployment'') (JStr ''web'') (JStr ''default'') [example_block]))
   \<and> py_getitem example_workload ''containers'' = Inr (JList [example_container])
   \<and> py_getitem example_container ''name'' = Inr (JStr ''app'')"
  by code_simp


section \<open>Which containers appear, and in what order\<close>

text \<open>
  Claim C8.  Whenever the builder returns, a considered container without a
  \<open>recommendation\<close> field, or with a null one, contributes no block; every block of the
  patch is the block of a considered container whose recommendation is present and true;
  and the blocks are the same as if the containers without recommendation had been removed
  from the input.
\<close>

theorem no_recommendation_never_emitted:
  assumes "create_kubernetes_patch w cn = (msgs, Inr p)"
    and "considered_containers w cn = Inr cs"
  shows "(\<forall>c. c \<in> set cs \<and> py_get c ''recommendation'' = Inr JNull \<longrightarrow> container_block c = Inr None)
       \<and> (\<forall>b. b \<in> set (patch_containers p) \<longrightarrow>
             (\<exists>c g. c \<in> set cs \<and> container_block c = Inr (Some b)
                \<and> py_get c ''recommendation'' = Inr g \<and> truthy g))
       \<and> build_blocks (filter (\<lambda>c. py_get c ''recommendation'' \<noteq> Inr JNull) cs)
           = Inr (patch_containers p)"
proof -
  from ckp_blocks [OF assms] have bb: "build_blocks cs = Inr (patch_containers p)" .
  have none: "container_block c = Inr None" if "py_get c ''recommendation'' = Inr JNull" for c
    using that by (simp add: container_block_no_recommendation)
  have origin: "\<exists>c g. c \<in> set cs \<and> container_block c = Inr (Some b)
      \<and> py_get c ''recommendation'' = Inr g \<and> truthy g" if "b \<in> set (patch_containers p)" for b
  proof -
    from build_blocks_origin [OF bb that] obtain c where c: "c \<in> set cs"
      "container_block c = Inr (Some b)" by blast
    from container_block_Some_recommendation [OF c(2)] c show ?thesis by blast
  qed
  have "build_blocks (filter (\<lambda>c. py_get c ''recommendation'' \<noteq> Inr JNull) cs)
      = Inr (patch_containers p)"
    using bb by (rule build_blocks_filter) (simp add: none)
  with none origin show ?thesis by blast
qed

text \<open>
  The theorem on a workload of three containers, the second one with a null
  recommendation.
\<close>

theorem no_recommendation_never_emitted_witness:
  "create_kubernetes_patch three_containers_workload None = ([], Inr three_containers_patch)
   \<and> considered_containers three_containers_workload None
       = Inr [example_container, sidecar_container, memory_container]
   \<and> py_get sidecar_container ''recommendation'' = Inr JNull
   \<and> container_block sidecar_container = Inr None
   \<and> build_blocks (filter (\<lambda>c. py_get c ''recommendation'' \<noteq> Inr JNull)
        [example_container, sidecar_container, memory_container])
       = Inr (patch_containers three_containers_patch)"
proof -
  note h1 = three_containers_result
  note h2 = three_containers_considered
  have g: "py_get sidecar_container ''recommendation'' = Inr JNull"
    by (simp add: sidecar_container_def)
  from no_recommendation_never_emitted [OF h1 h2] g h1 h2 show ?thesis
    by simp
qed

text \<open>
  Claim C9.  Whenever the builder returns a patch for a workload whose \<open>containers\<close> is a
  list, the blocks of the patch are, in order, the blocks of a subsequence of that list,
  so the names in the output are the names of those containers in input order.
\<close>

theorem output_order_follows_input:
  assumes "create_kubernetes_patch w cn = (msgs, Inr p)" and "p \<noteq> JNull"
    and "py_getitem w ''containers'' = Inr (JList cs)"
  shows "\<exists>kept. subseq kept cs
           \<and> map container_block kept = map (\<lambda>b. Inr (Some b)) (patch_containers p)
           \<and> map (\<lambda>b. py_getitem b ''name'') (patch_containers p)
               = map (\<lambda>c. py_getitem c ''name'') kept"
proof -
  from ckp_considered [OF assms(1,2)] obtain cs' where cs': "considered_containers w cn = Inr cs'"
    by blast
  from considered_subseq [OF cs' assms(3)] have sub: "subseq cs' cs" .
  from build_blocks_subseq [OF ckp_blocks [OF assms(1) cs']] obtain kept
    where kept: "subseq kept cs'"
      "map container_block kept = map (\<lambda>b. Inr (Some b)) (patch_containers p)" by blast
  from blocks_names [OF kept(2)]
  have "map (\<lambda>b. py_getitem b ''name'') (patch_containers p)
      = map (\<lambda>c. py_getitem c ''name'') kept" .
  with kept sub show ?thesis
    by (meson subseq_order.trans)
qed

text \<open>The theorem on the three containers: the output names are \<open>app\<close>, \<open>db\<close>, in that order.\<close>

theorem output_order_follows_input_witness:
  "create_kubernetes_patch three_containers_workload None = ([], Inr three_containers_patch)
   \<and> three_containers_patch \<noteq> JNull
   \<and> py_getitem three_containers_workload ''containers''
       = Inr (JList [example_container, sidecar_container, memory_container])
   \<and> (\<exists>kept. subseq kept [example_container, sidecar_container, memory_container]
          \<and> map container_block kept
              = map (\<lambda>b. Inr (Some b)) (patch_containers three_containers_patch)
          \<and> map (\<lambda>b. py_getitem b ''name'') (patch_containers three_containers_patch)
              = map (\<lambda>c. py_getitem c ''name'') kept)
   \<and> map (\<lambda>b. py_getitem b ''name'') (patch_containers three_containers_patch)
       = [Inr (JStr ''app''), Inr (JStr ''db'')]"
proof -
  note h1 = three_containers_result
  have h2: "three_containers_patch \<noteq> JNull"
    by (simp add: three_containers_patch_def patch_document_def)
  have h3: "py_getitem three_containers_workload ''containers''
      = Inr (JList [example_container, sidecar_container, memory_container])"
    by (simp add: three_containers_workload_def)
  have n: "map (\<lambda>b. py_getitem b ''name'') (patch_containers three_containers_patch)
      = [Inr (JStr ''app''), Inr (JStr ''db'')]"
    by (simp add: three_containers_patch_def example_block_def memory_block_def)
  from output_order_follows_input [OF h1 h2 h3] h1 h2 h3 n show ?thesis
    by (intro conjI)
qed

section \<open>Missing fields during the scan\<close>

text \<open>
  Claim C10, as amended.  The scan reads \<open>name\<close> of every element up to the first match,
  and \<open>namespace\<close> only of an element whose \<open>name\<close> equals the target.  So when the test is
  false on every element before a dictionary \<open>u\<close>, and \<open>u\<close> lacks \<open>name\<close>, or has the target
  name and lacks \<open>namespace\<close>, the locator ends with a \<open>KeyError\<close> for that key (not the
  schema error, not \<open>None\<close>), whatever follows \<open>u\<close>, a matching workload included.
\<close>

theorem key_error_before_match:
  assumes "py_getitem d ''workloads'' = Inr (JList (pre @ JObj u # post))"
    and "\<forall>v \<in> set pre. workload_matches v nm ns = Inr False"
    and "map_of u ''name'' = None
       \<or> (map_of u ''name'' = Some (JStr nm) \<and> map_of u ''namespace'' = None)"
  shows "find_workload d nm ns
           = ([], Inl (KeyError (if map_of u ''name'' = None then ''name'' else ''namespace'')))"
  using assms(1,2) workload_matches_KeyError [OF assms(3)]
  by (simp add: find_workload_list scan_error)

text \<open>
  The theorem on a list whose second element has the target name and no \<open>namespace\<close>, and
  whose third element matches.
\<close>

theorem key_error_before_match_witness:
  "find_workload
     (JObj [(''workloads'', JList [other_workload, JObj [(''name'', JStr ''web'')], example_workload])])
     ''web'' ''default'' = ([], Inl (KeyError ''namespace''))
   \<and> workload_matches example_workload ''web'' ''default'' = Inr True"
proof -
  have h1: "py_getitem
      (JObj [(''workloads'', JList [other_workload, JObj [(''name'', JStr ''web'')], example_workload])])
      ''workloads''
      = Inr (JList ([other_workload] @ JObj [(''name'', JStr ''web'')] # [example_workload]))"
    by simp
  have h2: "\<forall>u \<in> set [other_workload]. workload_matches u ''web'' ''default'' = Inr False"
    by (simp add: other_workload_def workload_matches_def)
  have h3: "map_of [(''name'', JStr ''web'')] ''name'' = None
      \<or> (map_of [(''name'', JStr ''web'')] ''name'' = Some (JStr ''web'')
          \<and> map_of [(''name'', JStr ''web'')] ''namespace'' = None)"
    by simp
  have m: "workload_matches example_workload ''web'' ''default'' = Inr True"
    by (simp add: example_workload_def synthetic_workload_def workload_matches_def)
  from key_error_before_match [OF h1 h2 h3] m show ?thesis
    by simp
qed

text \<open>
  Claim C10 as stated fails on an earlier element that has another name and no
  \<open>namespace\<close>: its \<open>namespace\<close> is never read, no \<open>KeyError\<close> is raised, and the later match
  is returned.
\<close>

theorem key_error_counterexample:
  "find_workload (JObj [(''workloads'', JList [JObj [(''name'', JStr ''api'')], example_workload])])
     ''web'' ''default'' = ([], Inr example_workload)
   \<and> py_getitem (JObj [(''name'', JStr ''api'')]) ''namespace'' = Inl (KeyError ''namespace'')"
  by code_simp


end
